theory Spec2Isabelle
  imports Complex_Main
begin

section \<open>The AI client of rubberduck-vscode (src/ai/AIClient.ts)\<close>

text \<open>
  The client owns one piece of mutable state, the OpenAI base URL, and offers two
  asynchronous operations, \<open>streamText\<close> and \<open>generateEmbedding\<close>. Everything else it
  touches is an external collaborator: the API key manager, the editor configuration, the
  logger, the console and the two entry points of the provider library. The collaborators
  are gathered in a record of their observable behaviour, and every call on one of them is
  written to a trace, so that the order of effects can be stated.

  An \<open>async\<close> function either resolves or rejects: its outcome is a value of
  \<open>thrown + 'a\<close>, with \<open>Inl\<close> the rejection.
\<close>

subsection \<open>Values\<close>

text \<open>
  JavaScript numbers. The client never computes with them: it copies the caller's and the
  provider's numbers and writes the literal 0.
\<close>

type_synonym number = real

text \<open>
  What can be thrown, or can reject an awaited promise, inside the client:
  \<^item> \<open>JsError m\<close> is \<open>new Error(m)\<close>, thrown by \<open>getOpenAIApiConfiguration\<close>;
  \<^item> \<open>ZodError m\<close> is thrown by \<open>z.enum([...]).parse\<close> on a value outside the enumeration,
    with the message text the library builds;
  \<^item> \<open>TypeError m\<close> is thrown by the engine on reading a property of \<open>undefined\<close>, with
    the engine's message text;
  \<^item> \<open>Rejection mo\<close> is any value a collaborator throws or rejects with; \<open>mo\<close> is its
    \<open>message\<close> property, \<open>None\<close> when it has none (or when the value is \<open>undefined\<close>).
\<close>

datatype thrown =
    JsError string
  | ZodError string
  | TypeError string
  | Rejection "string option"

text \<open>The expression \<open>error?.message\<close>.\<close>

fun message_of :: "thrown \<Rightarrow> string option" where
  "message_of (JsError m) = Some m"
| "message_of (ZodError m) = Some m"
| "message_of (TypeError m) = Some m"
| "message_of (Rejection mo) = mo"

text \<open>A value read from the editor configuration: absent, a string, or anything else.\<close>

datatype config_value = CUndefined | CString string | COther

record OpenAIApiConfiguration =
  baseUrl :: string
  apiKey :: string

text \<open>The prompt format handed to \<open>withPromptFormat\<close>: \<open>mapInstructionPromptToOpenAIChatFormat()\<close>.\<close>

datatype prompt_format = InstructionPromptToOpenAIChatFormat

text \<open>The settings object the client gives to \<open>new OpenAIChatModel\<close>.\<close>

record OpenAIChatModel =
  api :: OpenAIApiConfiguration
  model :: string
  maxCompletionTokens :: number
  temperature :: number
  frequencyPenalty :: number
  presencePenalty :: number
  stopSequences :: "string list option"

record OpenAITextEmbeddingModel =
  embedding_api :: OpenAIApiConfiguration
  embedding_model :: string

text \<open>One raw response of the embedding endpoint: \<open>response[i].usage.total_tokens\<close>.\<close>

record usage_record =
  total_tokens :: number

record embedding_response =
  usage :: usage_record

text \<open>The two shapes \<open>generateEmbedding\<close> returns, tagged \<open>"success"\<close> and \<open>"error"\<close>.\<close>

datatype embedding_result =
    EmbeddingSuccess (embedding: "number list") (totalTokenCount: number)
  | EmbeddingError (errorMessage: "string option")

subsection \<open>Collaborators and the trace of their calls\<close>

text \<open>
  The behaviour of the collaborators during one operation:
  \<^item> \<open>getOpenAIApiKey\<close>: what \<open>await apiKeyManager.getOpenAIApiKey()\<close> gives: a rejection,
    \<open>undefined\<close> (\<open>None\<close>) or a key;
  \<^item> \<open>configuredModel\<close>: \<open>vscode.workspace.getConfiguration("rubberduck").get("model")\<close>;
  \<^item> \<open>modelfusion_streamText s f p\<close>: the provider library's
    \<open>streamText(new OpenAIChatModel(s).withPromptFormat(f), {instruction: p})\<close>, as a
    function of what the client supplies: the settings \<open>s\<close>, the prompt format \<open>f\<close> and
    the instruction \<open>p\<close>. What the library makes of the settings on its way to the
    network (its constructor and \<open>withPromptFormat\<close> are not part of this repository) is
    inside this function;
  \<^item> \<open>modelfusion_embed\<close>: the library's \<open>embed(...).asFullResponse()\<close>;
  \<^item> \<open>zodErrorMessage\<close>, \<open>typeErrorMessage\<close>: the message texts of the library and engine.
\<close>

record env =
  getOpenAIApiKey :: "thrown + string option"
  configuredModel :: config_value
  modelfusion_streamText ::
    "OpenAIChatModel \<Rightarrow> prompt_format \<Rightarrow> string \<Rightarrow> thrown + string list"
  modelfusion_embed ::
    "OpenAITextEmbeddingModel \<Rightarrow> string \<Rightarrow> thrown + (number list \<times> embedding_response list)"
  zodErrorMessage :: "config_value \<Rightarrow> string"
  typeErrorMessage :: string

text \<open>
  The calls on collaborators, with the arguments the client passes. \<open>StreamTextCall s f p\<close>
  is the library call described above, \<open>EmbedCall m i\<close> the embedding call.
\<close>

datatype event =
    LogCall "string list"
  | ApiKeyRequest
  | StreamTextCall OpenAIChatModel prompt_format string
  | EmbedCall OpenAITextEmbeddingModel string
  | ConsoleLog thrown

fun is_network_call :: "event \<Rightarrow> bool" where
  "is_network_call (StreamTextCall m f p) = True"
| "is_network_call (EmbedCall m i) = True"
| "is_network_call e = False"

fun is_log_call :: "event \<Rightarrow> bool" where
  "is_log_call (LogCall ls) = True"
| "is_log_call e = False"

definition network_calls :: "event list \<Rightarrow> event list" where
  "network_calls t = filter is_network_call t"

definition log_calls :: "event list \<Rightarrow> event list" where
  "log_calls t = filter is_log_call t"

type_synonym 'a outcome = "(thrown + 'a) \<times> event list"

subsection \<open>Configuration reading\<close>

definition supported_models :: "string list" where
  "supported_models = [''gpt-4'', ''gpt-4-32k'', ''gpt-3.5-turbo'', ''gpt-3.5-turbo-16k'']"

text \<open>\<open>z.enum(supported_models).parse(v)\<close>: the string itself when it is listed, else a throw.\<close>

fun getOpenAIChatModel :: "env \<Rightarrow> thrown + string" where
  "getOpenAIChatModel E =
     (case configuredModel E of
        CString s \<Rightarrow>
          (if s \<in> set supported_models then Inr s
           else Inl (ZodError (zodErrorMessage E (CString s))))
      | v \<Rightarrow> Inl (ZodError (zodErrorMessage E v)))"

subsection \<open>The client\<close>

text \<open>
  \<open>s.replace(/\/$/, "")\<close>: the pattern is tried at each position from the left and
  matches a slash that is followed by the end of the input; the first match is removed.
\<close>

fun strip_trailing_slash :: "string \<Rightarrow> string" where
  "strip_trailing_slash [] = []"
| "strip_trailing_slash [c] = (if c = CHR ''/'' then [] else [c])"
| "strip_trailing_slash (c # d # cs) = c # strip_trailing_slash (d # cs)"

text \<open>The client's state. Its key manager and logger are collaborators (see \<open>env\<close>).\<close>

record AIClient =
  openAIBaseUrl :: string

definition new_AIClient :: "string \<Rightarrow> AIClient" where
  "new_AIClient url = \<lparr>openAIBaseUrl = strip_trailing_slash url\<rparr>"

definition setOpenAIBaseUrl :: "AIClient \<Rightarrow> string \<Rightarrow> AIClient" where
  "setOpenAIBaseUrl c url = c\<lparr>openAIBaseUrl := strip_trailing_slash url\<rparr>"

definition missing_key_message :: string where
  "missing_key_message =
     ''No OpenAI API key found. '' @
     ''Please enter your OpenAI API key with the 'Rubberduck: Enter OpenAI API key' command.''"

text \<open>
  The test \<open>apiKey == undefined\<close> holds for \<open>undefined\<close> and \<open>null\<close>; both are \<open>None\<close>.
\<close>

definition getOpenAIApiConfiguration :: "env \<Rightarrow> AIClient \<Rightarrow> OpenAIApiConfiguration outcome" where
  "getOpenAIApiConfiguration E c =
     (case getOpenAIApiKey E of
        Inl e \<Rightarrow> (Inl e, [ApiKeyRequest])
      | Inr None \<Rightarrow> (Inl (JsError missing_key_message), [ApiKeyRequest])
      | Inr (Some k) \<Rightarrow>
          (Inr \<lparr>baseUrl = openAIBaseUrl c, apiKey = k\<rparr>, [ApiKeyRequest]))"

text \<open>
  \<open>streamText({prompt, maxTokens, stop, temperature = 0})\<close>. The log call comes first; the
  properties of the model's settings are evaluated in the order written, \<open>api\<close> before
  \<open>model\<close>; the provider is called last, and its promise is the operation's.
\<close>

definition streamText ::
  "env \<Rightarrow> AIClient \<Rightarrow> string \<Rightarrow> number \<Rightarrow> string list option \<Rightarrow> number option
     \<Rightarrow> string list outcome" where
  "streamText E c prompt maxTokens stop temperature_arg =
     (let logged = LogCall [''--- Start OpenAI prompt ---'', prompt, ''--- End OpenAI prompt ---''];
          temperature' = (case temperature_arg of None \<Rightarrow> 0 | Some t \<Rightarrow> t)
      in case getOpenAIApiConfiguration E c of
           (Inl e, t) \<Rightarrow> (Inl e, logged # t)
         | (Inr cfg, t) \<Rightarrow>
             (case getOpenAIChatModel E of
                Inl e \<Rightarrow> (Inl e, logged # t)
              | Inr name \<Rightarrow>
                  (let m = \<lparr>api = cfg, model = name, maxCompletionTokens = maxTokens,
                            temperature = temperature', frequencyPenalty = 0,
                            presencePenalty = 0, stopSequences = stop\<rparr>;
                       f = InstructionPromptToOpenAIChatFormat
                   in (modelfusion_streamText E m f prompt,
                       logged # t @ [StreamTextCall m f prompt]))))"

text \<open>
  The \<open>try\<close> block of \<open>generateEmbedding\<close>. Reading \<open>response[0]!.usage\<close> of an empty
  array throws a \<open>TypeError\<close> (the \<open>!\<close> is erased at run time).
\<close>

definition generateEmbedding_try :: "env \<Rightarrow> AIClient \<Rightarrow> string \<Rightarrow> embedding_result outcome" where
  "generateEmbedding_try E c input =
     (case getOpenAIApiConfiguration E c of
        (Inl e, t) \<Rightarrow> (Inl e, t)
      | (Inr cfg, t) \<Rightarrow>
          (let m = \<lparr>embedding_api = cfg, embedding_model = ''text-embedding-ada-002''\<rparr>;
               t' = t @ [EmbedCall m input]
           in case modelfusion_embed E m input of
                Inl e \<Rightarrow> (Inl e, t')
              | Inr (out, response) \<Rightarrow>
                  (case response of
                     [] \<Rightarrow> (Inl (TypeError (typeErrorMessage E)), t')
                   | r # rs \<Rightarrow>
                       (Inr (EmbeddingSuccess out (total_tokens (usage r))), t'))))"

text \<open>The whole operation: the \<open>catch\<close> block prints the error and returns the error shape.\<close>

definition generateEmbedding :: "env \<Rightarrow> AIClient \<Rightarrow> string \<Rightarrow> embedding_result outcome" where
  "generateEmbedding E c input =
     (case generateEmbedding_try E c input of
        (Inl error, t) \<Rightarrow> (Inr (EmbeddingError (message_of error)), t @ [ConsoleLog error])
      | (Inr result, t) \<Rightarrow> (Inr result, t))"

subsection \<open>Predicates and sample collaborators used in the statements\<close>

definition supported_model :: "config_value \<Rightarrow> bool" where
  "supported_model v = (case v of CString s \<Rightarrow> s \<in> set supported_models | _ \<Rightarrow> False)"

definition ends_with_slash :: "string \<Rightarrow> bool" where
  "ends_with_slash s = (s \<noteq> [] \<and> last s = CHR ''/'')"

text \<open>
  A stubbed set of collaborators: a key is present, the configured model is supported, the
  provider streams two chunks and returns the vector \<open>[0.1, 0.2, 0.3]\<close> with one usage
  record of 7 tokens.
\<close>

definition example_env :: env where
  "example_env =
     \<lparr>getOpenAIApiKey = Inr (Some ''sk-test''),
      configuredModel = CString ''gpt-4'',
      modelfusion_streamText = (\<lambda>m f p. Inr [''Hello'', '', world'']),
      modelfusion_embed = (\<lambda>m i. Inr ([0.1, 0.2, 0.3], [\<lparr>usage = \<lparr>total_tokens = 7\<rparr>\<rparr>])),
      zodErrorMessage = (\<lambda>v. ''Invalid enum value''),
      typeErrorMessage = ''Cannot read properties of undefined (reading 'usage')''\<rparr>"

definition example_client :: AIClient where
  "example_client = new_AIClient ''https://api.openai.com/v1/''"

section \<open>Properties\<close>

subsection \<open>Base URL normalisation\<close>

lemma strip_trailing_slash_snoc: "strip_trailing_slash (t @ [CHR ''/'']) = t"
  by (induction t rule: strip_trailing_slash.induct) auto

lemma strip_trailing_slash_unchanged:
  "\<not> ends_with_slash s \<Longrightarrow> strip_trailing_slash s = s"
  by (induction s rule: strip_trailing_slash.induct) (auto simp: ends_with_slash_def)

lemma strip_trailing_slash_butlast:
  "strip_trailing_slash s = (if ends_with_slash s then butlast s else s)"
  by (induction s rule: strip_trailing_slash.induct) (auto simp: ends_with_slash_def)

text \<open>
  C5. The constructor and \<open>setOpenAIBaseUrl\<close> store the same normalised string: a string
  ending in exactly one slash loses that slash, a string that does not end in a slash is
  stored as it is, and a string ending in two slashes loses one of them and keeps the
  other.
\<close>

theorem base_url_normalization:
  "(\<not> ends_with_slash t \<longrightarrow>
      openAIBaseUrl (new_AIClient (t @ ''/'')) = t \<and>
      openAIBaseUrl (setOpenAIBaseUrl c (t @ ''/'')) = t) \<and>
   (\<not> ends_with_slash s \<longrightarrow>
      openAIBaseUrl (new_AIClient s) = s \<and>
      openAIBaseUrl (setOpenAIBaseUrl c s) = s) \<and>
   openAIBaseUrl (new_AIClient (u @ ''//'')) = u @ ''/'' \<and>
   openAIBaseUrl (setOpenAIBaseUrl c (u @ ''//'')) = u @ ''/''"
proof -
  have two: "strip_trailing_slash (u @ ''//'') = u @ ''/''"
    using strip_trailing_slash_snoc [of "u @ ''/''"] by simp
  show ?thesis
    by (simp add: new_AIClient_def setOpenAIBaseUrl_def strip_trailing_slash_snoc
        strip_trailing_slash_unchanged two)
qed

theorem base_url_normalization_witness:
  "\<not> ends_with_slash ''https://api.openai.com/v1'' \<and>
   openAIBaseUrl (new_AIClient ''https://api.openai.com/v1/'') = ''https://api.openai.com/v1'' \<and>
   openAIBaseUrl (setOpenAIBaseUrl example_client ''https://api.openai.com/v1/'')
     = ''https://api.openai.com/v1'' \<and>
   openAIBaseUrl (new_AIClient ''https://api.openai.com/v1'') = ''https://api.openai.com/v1'' \<and>
   openAIBaseUrl (setOpenAIBaseUrl example_client ''https://api.openai.com/v1'')
     = ''https://api.openai.com/v1'' \<and>
   openAIBaseUrl (new_AIClient ''http://h/a//'') = ''http://h/a/'' \<and>
   openAIBaseUrl (setOpenAIBaseUrl example_client ''http://h/a//'') = ''http://h/a/''"
  using base_url_normalization [of "''https://api.openai.com/v1''" example_client
      "''https://api.openai.com/v1''" "''http://h/a''"]
  by (simp add: ends_with_slash_def)

text \<open>
  C4. The stored base URL is meant never to end in a slash (the comments at both mutation
  points say so). It does after construction or update with a string that ends in two
  slashes: only one is removed.
\<close>

theorem trailing_slash_survives:
  "openAIBaseUrl (new_AIClient ''https://api.openai.com/v1//'') = ''https://api.openai.com/v1/'' \<and>
   openAIBaseUrl (setOpenAIBaseUrl example_client ''https://api.openai.com/v1//'')
     = ''https://api.openai.com/v1/'' \<and>
   ends_with_slash (openAIBaseUrl (new_AIClient ''https://api.openai.com/v1//'')) \<and>
   ends_with_slash (openAIBaseUrl (setOpenAIBaseUrl example_client ''https://api.openai.com/v1//''))"
  by (simp add: new_AIClient_def setOpenAIBaseUrl_def ends_with_slash_def)

subsection \<open>Credential and model validation\<close>

lemma getOpenAIChatModel_unsupported:
  "\<not> supported_model (configuredModel E) \<Longrightarrow>
   getOpenAIChatModel E = Inl (ZodError (zodErrorMessage E (configuredModel E)))"
  by (auto simp: supported_model_def split: config_value.splits)

lemma getOpenAIChatModel_supported:
  "supported_model (configuredModel E) \<Longrightarrow>
   \<exists>s. configuredModel E = CString s \<and> getOpenAIChatModel E = Inr s"
  by (auto simp: supported_model_def split: config_value.splits)

lemma getOpenAIApiConfiguration_absent:
  "getOpenAIApiKey E = Inr None \<Longrightarrow>
   getOpenAIApiConfiguration E c = (Inl (JsError missing_key_message), [ApiKeyRequest])"
  by (simp add: getOpenAIApiConfiguration_def)

lemma getOpenAIApiConfiguration_rejected:
  "getOpenAIApiKey E = Inl e \<Longrightarrow> getOpenAIApiConfiguration E c = (Inl e, [ApiKeyRequest])"
  by (simp add: getOpenAIApiConfiguration_def)

lemma getOpenAIApiConfiguration_present:
  "getOpenAIApiKey E = Inr (Some k) \<Longrightarrow>
   getOpenAIApiConfiguration E c =
     (Inr \<lparr>baseUrl = openAIBaseUrl c, apiKey = k\<rparr>, [ApiKeyRequest])"
  by (simp add: getOpenAIApiConfiguration_def)

subsection \<open>Embedding\<close>

text \<open>
  C1. \<open>generateEmbedding\<close> never rejects. Whatever the input and the collaborators do, it
  resolves to one of its two shapes; when the key manager rejects, when the key is absent
  and when the provider's embedding call rejects, it resolves to the error shape, whose
  message is the \<open>message\<close> of the failure, \<open>None\<close> when the failure has none. More
  generally any failure of the \<open>try\<close> block is printed and turned into the error shape.
\<close>

theorem generateEmbedding_never_raises:
  "(\<exists>r. fst (generateEmbedding E c input) = Inr r) \<and>
   (getOpenAIApiKey E = Inl e \<longrightarrow>
      fst (generateEmbedding E c input) = Inr (EmbeddingError (message_of e))) \<and>
   (getOpenAIApiKey E = Inr None \<longrightarrow>
      fst (generateEmbedding E c input) = Inr (EmbeddingError (Some missing_key_message))) \<and>
   (getOpenAIApiKey E = Inr (Some k) \<longrightarrow>
      modelfusion_embed E
        \<lparr>embedding_api = \<lparr>baseUrl = openAIBaseUrl c, apiKey = k\<rparr>,
         embedding_model = ''text-embedding-ada-002''\<rparr> input = Inl e \<longrightarrow>
      fst (generateEmbedding E c input) = Inr (EmbeddingError (message_of e))) \<and>
   (\<forall>t. generateEmbedding_try E c input = (Inl e, t) \<longrightarrow>
      generateEmbedding E c input = (Inr (EmbeddingError (message_of e)), t @ [ConsoleLog e]))"
proof -
  have total: "\<exists>r. fst (generateEmbedding E c input) = Inr r"
    by (cases "generateEmbedding_try E c input"; cases "fst (generateEmbedding_try E c input)")
       (auto simp: generateEmbedding_def)
  have rejected: "getOpenAIApiKey E = Inl e \<longrightarrow>
      fst (generateEmbedding E c input) = Inr (EmbeddingError (message_of e))"
    by (simp add: generateEmbedding_def generateEmbedding_try_def
        getOpenAIApiConfiguration_rejected)
  have absent: "getOpenAIApiKey E = Inr None \<longrightarrow>
      fst (generateEmbedding E c input) = Inr (EmbeddingError (Some missing_key_message))"
    by (simp add: generateEmbedding_def generateEmbedding_try_def
        getOpenAIApiConfiguration_absent)
  have provider: "getOpenAIApiKey E = Inr (Some k) \<longrightarrow>
      modelfusion_embed E
        \<lparr>embedding_api = \<lparr>baseUrl = openAIBaseUrl c, apiKey = k\<rparr>,
         embedding_model = ''text-embedding-ada-002''\<rparr> input = Inl e \<longrightarrow>
      fst (generateEmbedding E c input) = Inr (EmbeddingError (message_of e))"
    by (simp add: generateEmbedding_def generateEmbedding_try_def
        getOpenAIApiConfiguration_present)
  have caught: "\<forall>t. generateEmbedding_try E c input = (Inl e, t) \<longrightarrow>
      generateEmbedding E c input = (Inr (EmbeddingError (message_of e)), t @ [ConsoleLog e])"
    by (simp add: generateEmbedding_def)
  from total rejected absent provider caught show ?thesis by blast
qed

text \<open>
  The four failures at a stubbed provider: a key manager that rejects with a value
  without message, an absent key, a provider that rejects with a network error, and a
  response without usage records.
\<close>

theorem generateEmbedding_never_raises_witness:
  "getOpenAIApiKey (example_env\<lparr>getOpenAIApiKey := Inl (Rejection None)\<rparr>) = Inl (Rejection None) \<and>
   fst (generateEmbedding (example_env\<lparr>getOpenAIApiKey := Inl (Rejection None)\<rparr>)
          example_client ''hello'') = Inr (EmbeddingError None) \<and>
   getOpenAIApiKey (example_env\<lparr>getOpenAIApiKey := Inr None\<rparr>) = Inr None \<and>
   fst (generateEmbedding (example_env\<lparr>getOpenAIApiKey := Inr None\<rparr>) example_client ''hello'')
     = Inr (EmbeddingError (Some missing_key_message)) \<and>
   getOpenAIApiKey
     (example_env\<lparr>modelfusion_embed := (\<lambda>m i. Inl (Rejection (Some ''socket hang up'')))\<rparr>)
     = Inr (Some ''sk-test'') \<and>
   fst (generateEmbedding
          (example_env\<lparr>modelfusion_embed := (\<lambda>m i. Inl (Rejection (Some ''socket hang up'')))\<rparr>)
          example_client ''hello'') = Inr (EmbeddingError (Some ''socket hang up'')) \<and>
   generateEmbedding (example_env\<lparr>modelfusion_embed := (\<lambda>m i. Inr ([0.5], []))\<rparr>)
          example_client ''hello''
     = (Inr (EmbeddingError (Some ''Cannot read properties of undefined (reading 'usage')'')),
        [ApiKeyRequest,
         EmbedCall \<lparr>embedding_api = \<lparr>baseUrl = ''https://api.openai.com/v1'', apiKey = ''sk-test''\<rparr>,
                    embedding_model = ''text-embedding-ada-002''\<rparr> ''hello'',
         ConsoleLog (TypeError ''Cannot read properties of undefined (reading 'usage')'')])"
  using
    generateEmbedding_never_raises [of "example_env\<lparr>getOpenAIApiKey := Inl (Rejection None)\<rparr>"
      example_client "''hello''" "Rejection None" "''sk-test''"]
    generateEmbedding_never_raises [of "example_env\<lparr>getOpenAIApiKey := Inr None\<rparr>"
      example_client "''hello''" "Rejection None" "''sk-test''"]
    generateEmbedding_never_raises
      [of "example_env\<lparr>modelfusion_embed := (\<lambda>m i. Inl (Rejection (Some ''socket hang up'')))\<rparr>"
      example_client "''hello''" "Rejection (Some ''socket hang up'')" "''sk-test''"]
    generateEmbedding_never_raises
      [of "example_env\<lparr>modelfusion_embed := (\<lambda>m i. Inr ([0.5], []))\<rparr>"
      example_client "''hello''" "TypeError ''Cannot read properties of undefined (reading 'usage')''"
      "''sk-test''"]
  by (simp add: example_env_def example_client_def new_AIClient_def
      generateEmbedding_try_def getOpenAIApiConfiguration_def)

text \<open>
  C6. When the key is present and the provider's embedding call succeeds, the result is
  the success shape with the provider's vector as it came and the token count of the
  first usage record of the response. For the vector \<open>[0.1, 0.2, 0.3]\<close> and a usage of 7
  tokens it is \<open>EmbeddingSuccess [0.1, 0.2, 0.3] 7\<close>.
\<close>

theorem generateEmbedding_success:
  assumes "getOpenAIApiKey E = Inr (Some k)"
    and "modelfusion_embed E
           \<lparr>embedding_api = \<lparr>baseUrl = openAIBaseUrl c, apiKey = k\<rparr>,
            embedding_model = ''text-embedding-ada-002''\<rparr> input = Inr (out, r # rs)"
  shows "fst (generateEmbedding E c input)
           = Inr (EmbeddingSuccess out (total_tokens (usage r)))"
  using assms
  by (simp add: generateEmbedding_def generateEmbedding_try_def
      getOpenAIApiConfiguration_present)

text \<open>
  The stubbed provider of the example.
\<close>

theorem generateEmbedding_success_witness:
  "getOpenAIApiKey example_env = Inr (Some ''sk-test'') \<and>
   modelfusion_embed example_env
     \<lparr>embedding_api = \<lparr>baseUrl = openAIBaseUrl example_client, apiKey = ''sk-test''\<rparr>,
      embedding_model = ''text-embedding-ada-002''\<rparr> ''hello''
     = Inr ([0.1, 0.2, 0.3], [\<lparr>usage = \<lparr>total_tokens = 7\<rparr>\<rparr>]) \<and>
   fst (generateEmbedding example_env example_client ''hello'')
     = Inr (EmbeddingSuccess [0.1, 0.2, 0.3] 7)"
  using generateEmbedding_success [of example_env "''sk-test''" example_client "''hello''"
      "[0.1, 0.2, 0.3]" "\<lparr>usage = \<lparr>total_tokens = 7\<rparr>\<rparr>" "[]"]
  by (simp add: example_env_def)

subsection \<open>Absent credential\<close>

text \<open>
  C3. When the key manager reports the key absent, \<open>streamText\<close> rejects with the
  missing-key error and \<open>generateEmbedding\<close> returns it in its error shape; the message
  names the command that stores a key; neither operation calls the provider (the number
  of network calls in the trace is 0).
\<close>

theorem missing_credential_no_network_call:
  assumes "getOpenAIApiKey E = Inr None"
  shows "fst (streamText E c prompt maxTokens stop temp) = Inl (JsError missing_key_message) \<and>
         length (network_calls (snd (streamText E c prompt maxTokens stop temp))) = 0 \<and>
         fst (generateEmbedding E c input) = Inr (EmbeddingError (Some missing_key_message)) \<and>
         length (network_calls (snd (generateEmbedding E c input))) = 0 \<and>
         missing_key_message =
           ''No OpenAI API key found. Please enter your OpenAI API key with the 'Rubberduck: Enter OpenAI API key' command.''"
  using assms
  by (simp add: streamText_def generateEmbedding_def generateEmbedding_try_def
      getOpenAIApiConfiguration_absent network_calls_def missing_key_message_def)

text \<open>
  Both operations with an absent key: the whole traces.
\<close>

theorem missing_credential_no_network_call_witness:
  "getOpenAIApiKey (example_env\<lparr>getOpenAIApiKey := Inr None\<rparr>) = Inr None \<and>
   streamText (example_env\<lparr>getOpenAIApiKey := Inr None\<rparr>) example_client ''Explain this'' 1024
       None None
     = (Inl (JsError missing_key_message),
        [LogCall [''--- Start OpenAI prompt ---'', ''Explain this'', ''--- End OpenAI prompt ---''],
         ApiKeyRequest]) \<and>
   generateEmbedding (example_env\<lparr>getOpenAIApiKey := Inr None\<rparr>) example_client ''hello''
     = (Inr (EmbeddingError (Some missing_key_message)),
        [ApiKeyRequest, ConsoleLog (JsError missing_key_message)])"
  using missing_credential_no_network_call [of "example_env\<lparr>getOpenAIApiKey := Inr None\<rparr>"
      example_client "''Explain this''" 1024 None None "''hello''"]
  by (simp add: example_env_def streamText_def generateEmbedding_def generateEmbedding_try_def
      getOpenAIApiConfiguration_def)

text \<open>
  C2, amended. Validation failures come before any network call, and what the caller sees
  depends on the operation. With an absent key \<open>streamText\<close> rejects with the missing-key
  error, while \<open>generateEmbedding\<close> does not reject: it resolves to the error shape that
  carries the missing-key message. With a key and a configured model outside the
  enumeration \<open>streamText\<close> rejects with the validation error of the model. No network
  call is made in any of these cases. \<open>generateEmbedding\<close> never reads the configured
  model, so no model validation error arises there.
\<close>

theorem validation_errors_before_network:
  "(getOpenAIApiKey E = Inr None \<longrightarrow>
      fst (streamText E c prompt maxTokens stop temp) = Inl (JsError missing_key_message) \<and>
      network_calls (snd (streamText E c prompt maxTokens stop temp)) = [] \<and>
      fst (generateEmbedding E c input) = Inr (EmbeddingError (Some missing_key_message)) \<and>
      network_calls (snd (generateEmbedding E c input)) = []) \<and>
   (getOpenAIApiKey E = Inr (Some k) \<longrightarrow> \<not> supported_model (configuredModel E) \<longrightarrow>
      fst (streamText E c prompt maxTokens stop temp)
        = Inl (ZodError (zodErrorMessage E (configuredModel E))) \<and>
      network_calls (snd (streamText E c prompt maxTokens stop temp)) = []) \<and>
   fst (generateEmbedding (E\<lparr>configuredModel := v\<rparr>) c input) = fst (generateEmbedding E c input) \<and>
   snd (generateEmbedding (E\<lparr>configuredModel := v\<rparr>) c input) = snd (generateEmbedding E c input)"
proof -
  have absent: "getOpenAIApiKey E = Inr None \<longrightarrow>
      fst (streamText E c prompt maxTokens stop temp) = Inl (JsError missing_key_message) \<and>
      network_calls (snd (streamText E c prompt maxTokens stop temp)) = [] \<and>
      fst (generateEmbedding E c input) = Inr (EmbeddingError (Some missing_key_message)) \<and>
      network_calls (snd (generateEmbedding E c input)) = []"
    by (simp add: streamText_def generateEmbedding_def generateEmbedding_try_def
        getOpenAIApiConfiguration_absent network_calls_def)
  have invalid: "getOpenAIApiKey E = Inr (Some k) \<longrightarrow> \<not> supported_model (configuredModel E) \<longrightarrow>
      fst (streamText E c prompt maxTokens stop temp)
        = Inl (ZodError (zodErrorMessage E (configuredModel E))) \<and>
      network_calls (snd (streamText E c prompt maxTokens stop temp)) = []"
    using getOpenAIChatModel_unsupported [of E]
    by (auto simp: streamText_def getOpenAIApiConfiguration_present network_calls_def
        simp del: getOpenAIChatModel.simps)
  have same: "generateEmbedding (E\<lparr>configuredModel := v\<rparr>) c input = generateEmbedding E c input"
  proof -
    have "generateEmbedding_try (E\<lparr>configuredModel := v\<rparr>) c input
            = generateEmbedding_try E c input"
      by (auto simp: generateEmbedding_try_def getOpenAIApiConfiguration_def Let_def
          split: sum.splits option.splits list.splits prod.splits)
    then show ?thesis by (simp add: generateEmbedding_def)
  qed
  from absent invalid same show ?thesis by simp
qed

text \<open>
  An absent key for both operations, and a configured model that is not a string.
\<close>

theorem validation_errors_before_network_witness:
  "getOpenAIApiKey (example_env\<lparr>getOpenAIApiKey := Inr None\<rparr>) = Inr None \<and>
   streamText (example_env\<lparr>getOpenAIApiKey := Inr None\<rparr>) example_client ''Explain this'' 1024
       None None
     = (Inl (JsError missing_key_message),
        [LogCall [''--- Start OpenAI prompt ---'', ''Explain this'', ''--- End OpenAI prompt ---''],
         ApiKeyRequest]) \<and>
   generateEmbedding (example_env\<lparr>getOpenAIApiKey := Inr None\<rparr>) example_client ''hello''
     = (Inr (EmbeddingError (Some missing_key_message)),
        [ApiKeyRequest, ConsoleLog (JsError missing_key_message)]) \<and>
   getOpenAIApiKey (example_env\<lparr>configuredModel := COther\<rparr>) = Inr (Some ''sk-test'') \<and>
   \<not> supported_model (configuredModel (example_env\<lparr>configuredModel := COther\<rparr>)) \<and>
   streamText (example_env\<lparr>configuredModel := COther\<rparr>) example_client ''Explain this'' 1024
       None None
     = (Inl (ZodError ''Invalid enum value''),
        [LogCall [''--- Start OpenAI prompt ---'', ''Explain this'', ''--- End OpenAI prompt ---''],
         ApiKeyRequest]) \<and>
   fst (generateEmbedding (example_env\<lparr>configuredModel := COther\<rparr>) example_client ''hello'')
     = Inr (EmbeddingSuccess [0.1, 0.2, 0.3] 7)"
  using
    validation_errors_before_network [of "example_env\<lparr>getOpenAIApiKey := Inr None\<rparr>"
      example_client "''Explain this''" 1024 None None "''hello''" "''sk-test''" COther]
    validation_errors_before_network [of "example_env\<lparr>configuredModel := COther\<rparr>"
      example_client "''Explain this''" 1024 None None "''hello''" "''sk-test''" COther]
  by (simp add: example_env_def example_client_def new_AIClient_def supported_model_def
      streamText_def generateEmbedding_def generateEmbedding_try_def getOpenAIApiConfiguration_def)

text \<open>
  C2 as first worded says that \<open>generateEmbedding\<close>, like \<open>streamText\<close>, raises the
  missing-key error. It resolves instead.
\<close>

theorem generateEmbedding_raises_MissingCredential_counterexample:
  "getOpenAIApiKey (example_env\<lparr>getOpenAIApiKey := Inr None\<rparr>) = Inr None \<and>
   fst (generateEmbedding (example_env\<lparr>getOpenAIApiKey := Inr None\<rparr>) example_client ''hello'')
     = Inr (EmbeddingError (Some missing_key_message)) \<and>
   fst (generateEmbedding (example_env\<lparr>getOpenAIApiKey := Inr None\<rparr>) example_client ''hello'')
     \<noteq> Inl (JsError missing_key_message)"
  by (simp add: example_env_def generateEmbedding_def generateEmbedding_try_def
      getOpenAIApiConfiguration_def)

subsection \<open>Streamed completion\<close>

text \<open>
  C7. Every call of \<open>streamText\<close> makes exactly one log call, with the start marker, the
  prompt and the end marker, and that call is the first event of the operation: nothing,
  and so no network call, comes before it. This holds for all collaborators, whether the
  operation then succeeds or fails.
\<close>

theorem streamText_logs_prompt_first:
  "\<exists>rest. snd (streamText E c prompt maxTokens stop temp)
            = LogCall [''--- Start OpenAI prompt ---'', prompt, ''--- End OpenAI prompt ---'']
                # rest \<and>
          log_calls rest = [] \<and>
          log_calls (snd (streamText E c prompt maxTokens stop temp))
            = [LogCall [''--- Start OpenAI prompt ---'', prompt, ''--- End OpenAI prompt ---'']] \<and>
          takeWhile (\<lambda>ev. \<not> is_log_call ev) (snd (streamText E c prompt maxTokens stop temp)) = []"
  by (cases "getOpenAIApiKey E"; cases "getOpenAIChatModel E")
     (auto simp: streamText_def getOpenAIApiConfiguration_def log_calls_def Let_def
        split: option.splits simp del: getOpenAIChatModel.simps)

text \<open>
  C9. When \<open>streamText\<close> reaches the provider library (a key is present and the configured
  model is supported), it calls it once. The settings it gives to \<open>new OpenAIChatModel\<close>
  have frequency and presence penalty 0, the caller's temperature (0 when omitted), the
  caller's stop sequences (\<open>undefined\<close> when omitted) and the caller's maximum token
  count, with the stored base URL, the key and the configured model; the prompt format is
  the instruction-to-chat mapping and the instruction is the prompt.
\<close>

theorem streamText_provider_settings:
  assumes "getOpenAIApiKey E = Inr (Some k)"
    and "getOpenAIChatModel E = Inr name"
  shows "network_calls (snd (streamText E c prompt maxTokens stop temp))
           = [StreamTextCall
                \<lparr>api = \<lparr>baseUrl = openAIBaseUrl c, apiKey = k\<rparr>,
                 model = name,
                 maxCompletionTokens = maxTokens,
                 temperature = (case temp of None \<Rightarrow> 0 | Some t \<Rightarrow> t),
                 frequencyPenalty = 0,
                 presencePenalty = 0,
                 stopSequences = stop\<rparr>
                InstructionPromptToOpenAIChatFormat
                prompt] \<and>
         fst (streamText E c prompt maxTokens stop temp)
           = modelfusion_streamText E
                \<lparr>api = \<lparr>baseUrl = openAIBaseUrl c, apiKey = k\<rparr>,
                 model = name,
                 maxCompletionTokens = maxTokens,
                 temperature = (case temp of None \<Rightarrow> 0 | Some t \<Rightarrow> t),
                 frequencyPenalty = 0,
                 presencePenalty = 0,
                 stopSequences = stop\<rparr>
                InstructionPromptToOpenAIChatFormat
                prompt"
  using assms
  by (simp add: streamText_def getOpenAIApiConfiguration_present network_calls_def
      Let_def del: getOpenAIChatModel.simps)

text \<open>
  A call that gives a stop sequence and omits the temperature, and one that omits the stop
  sequences and gives the temperature 0.7.
\<close>

theorem streamText_provider_settings_witness:
  "getOpenAIApiKey example_env = Inr (Some ''sk-test'') \<and>
   getOpenAIChatModel example_env = Inr ''gpt-4'' \<and>
   network_calls (snd (streamText example_env example_client ''Explain this'' 1024
                         (Some [''###'']) None))
     = [StreamTextCall
          \<lparr>api = \<lparr>baseUrl = ''https://api.openai.com/v1'', apiKey = ''sk-test''\<rparr>,
           model = ''gpt-4'', maxCompletionTokens = 1024, temperature = 0,
           frequencyPenalty = 0, presencePenalty = 0, stopSequences = Some [''###'']\<rparr>
          InstructionPromptToOpenAIChatFormat
          ''Explain this''] \<and>
   network_calls (snd (streamText example_env example_client ''Explain this'' 1024
                         None (Some 0.7)))
     = [StreamTextCall
          \<lparr>api = \<lparr>baseUrl = ''https://api.openai.com/v1'', apiKey = ''sk-test''\<rparr>,
           model = ''gpt-4'', maxCompletionTokens = 1024, temperature = 0.7,
           frequencyPenalty = 0, presencePenalty = 0, stopSequences = None\<rparr>
          InstructionPromptToOpenAIChatFormat
          ''Explain this''] \<and>
   fst (streamText example_env example_client ''Explain this'' 1024 None (Some 0.7))
     = Inr [''Hello'', '', world'']"
  using
    streamText_provider_settings [of example_env "''sk-test''" "''gpt-4''" example_client
      "''Explain this''" 1024 "Some [''###'']" None]
    streamText_provider_settings [of example_env "''sk-test''" "''gpt-4''" example_client
      "''Explain this''" 1024 None "Some 0.7"]
  by (simp add: example_env_def example_client_def new_AIClient_def supported_models_def)

text \<open>
  C10. In \<open>streamText\<close> the credential is resolved before the model is validated: with an
  absent key and a configured model outside the enumeration, the operation rejects with
  the missing-key error, not with the validation error the model would give.
\<close>

theorem missing_credential_precedes_configuration_error:
  assumes "getOpenAIApiKey E = Inr None"
    and "\<not> supported_model (configuredModel E)"
  shows "fst (streamText E c prompt maxTokens stop temp) = Inl (JsError missing_key_message) \<and>
         getOpenAIChatModel E = Inl (ZodError (zodErrorMessage E (configuredModel E))) \<and>
         fst (streamText E c prompt maxTokens stop temp)
           \<noteq> Inl (ZodError (zodErrorMessage E (configuredModel E)))"
  using assms getOpenAIChatModel_unsupported [of E]
  by (simp add: streamText_def getOpenAIApiConfiguration_absent del: getOpenAIChatModel.simps)

text \<open>
  An absent key together with the model \<open>gpt-5\<close>.
\<close>

theorem missing_credential_precedes_configuration_error_witness:
  "getOpenAIApiKey (example_env\<lparr>getOpenAIApiKey := Inr None, configuredModel := CString ''gpt-5''\<rparr>)
     = Inr None \<and>
   \<not> supported_model
       (configuredModel
          (example_env\<lparr>getOpenAIApiKey := Inr None, configuredModel := CString ''gpt-5''\<rparr>)) \<and>
   fst (streamText (example_env\<lparr>getOpenAIApiKey := Inr None, configuredModel := CString ''gpt-5''\<rparr>)
          example_client ''Explain this'' 1024 None None)
     = Inl (JsError missing_key_message)"
  using missing_credential_precedes_configuration_error
    [of "example_env\<lparr>getOpenAIApiKey := Inr None, configuredModel := CString ''gpt-5''\<rparr>"
      example_client "''Explain this''" 1024 None None]
  by (simp add: example_env_def supported_model_def supported_models_def)

text \<open>
  C8, amended. When the configured model is outside the enumeration, \<open>streamText\<close> fails
  and makes no network call. The failure is the validation error of the model whenever the
  key manager supplies a key; when credential resolution fails, that failure is raised
  instead: the missing-key error when the key is absent, the key manager's own rejection
  when it rejects.
\<close>

theorem invalid_model_fails_before_network_call:
  assumes "\<not> supported_model (configuredModel E)"
  shows "(\<exists>e. fst (streamText E c prompt maxTokens stop temp) = Inl e) \<and>
         network_calls (snd (streamText E c prompt maxTokens stop temp)) = [] \<and>
         (getOpenAIApiKey E = Inr (Some k) \<longrightarrow>
            fst (streamText E c prompt maxTokens stop temp)
              = Inl (ZodError (zodErrorMessage E (configuredModel E)))) \<and>
         (getOpenAIApiKey E = Inr None \<longrightarrow>
            fst (streamText E c prompt maxTokens stop temp)
              = Inl (JsError missing_key_message)) \<and>
         (getOpenAIApiKey E = Inl e' \<longrightarrow>
            fst (streamText E c prompt maxTokens stop temp) = Inl e')"
  using getOpenAIChatModel_unsupported [OF assms]
  by (cases "getOpenAIApiKey E")
     (auto simp: streamText_def getOpenAIApiConfiguration_def network_calls_def
        split: option.splits simp del: getOpenAIChatModel.simps)

text \<open>
  The model \<open>gpt-5\<close> with a present key, with an absent key, and with a key manager that
  rejects.
\<close>

theorem invalid_model_fails_before_network_call_witness:
  "\<not> supported_model (configuredModel (example_env\<lparr>configuredModel := CString ''gpt-5''\<rparr>)) \<and>
   getOpenAIApiKey (example_env\<lparr>configuredModel := CString ''gpt-5''\<rparr>) = Inr (Some ''sk-test'') \<and>
   streamText (example_env\<lparr>configuredModel := CString ''gpt-5''\<rparr>) example_client
       ''Explain this'' 1024 None None
     = (Inl (ZodError ''Invalid enum value''),
        [LogCall [''--- Start OpenAI prompt ---'', ''Explain this'', ''--- End OpenAI prompt ---''],
         ApiKeyRequest]) \<and>
   getOpenAIApiKey
     (example_env\<lparr>configuredModel := CString ''gpt-5'', getOpenAIApiKey := Inr None\<rparr>) = Inr None \<and>
   streamText (example_env\<lparr>configuredModel := CString ''gpt-5'', getOpenAIApiKey := Inr None\<rparr>)
       example_client ''Explain this'' 1024 None None
     = (Inl (JsError missing_key_message),
        [LogCall [''--- Start OpenAI prompt ---'', ''Explain this'', ''--- End OpenAI prompt ---''],
         ApiKeyRequest]) \<and>
   getOpenAIApiKey
     (example_env\<lparr>configuredModel := CString ''gpt-5'',
                  getOpenAIApiKey := Inl (Rejection (Some ''keychain locked''))\<rparr>)
     = Inl (Rejection (Some ''keychain locked'')) \<and>
   streamText
       (example_env\<lparr>configuredModel := CString ''gpt-5'',
                    getOpenAIApiKey := Inl (Rejection (Some ''keychain locked''))\<rparr>)
       example_client ''Explain this'' 1024 None None
     = (Inl (Rejection (Some ''keychain locked'')),
        [LogCall [''--- Start OpenAI prompt ---'', ''Explain this'', ''--- End OpenAI prompt ---''],
         ApiKeyRequest])"
  using
    invalid_model_fails_before_network_call
      [of "example_env\<lparr>configuredModel := CString ''gpt-5''\<rparr>" example_client
        "''Explain this''" 1024 None None "''sk-test''" "Rejection (Some ''keychain locked'')"]
    invalid_model_fails_before_network_call
      [of "example_env\<lparr>configuredModel := CString ''gpt-5'', getOpenAIApiKey := Inr None\<rparr>"
        example_client "''Explain this''" 1024 None None "''sk-test''"
        "Rejection (Some ''keychain locked'')"]
    invalid_model_fails_before_network_call
      [of "example_env\<lparr>configuredModel := CString ''gpt-5'',
                        getOpenAIApiKey := Inl (Rejection (Some ''keychain locked''))\<rparr>"
        example_client "''Explain this''" 1024 None None "''sk-test''"
        "Rejection (Some ''keychain locked'')"]
  by (simp add: example_env_def supported_model_def supported_models_def streamText_def
      getOpenAIApiConfiguration_def)

text \<open>
  C8 as first worded promises the validation error for every call with an unsupported
  model. With an absent key the failure is the missing-key error.
\<close>

theorem invalid_model_always_ConfigurationError_counterexample:
  "\<not> supported_model
       (configuredModel
          (example_env\<lparr>getOpenAIApiKey := Inr None, configuredModel := CString ''gpt-5''\<rparr>)) \<and>
   fst (streamText (example_env\<lparr>getOpenAIApiKey := Inr None, configuredModel := CString ''gpt-5''\<rparr>)
          example_client ''Explain this'' 1024 None None)
     = Inl (JsError missing_key_message) \<and>
   fst (streamText (example_env\<lparr>getOpenAIApiKey := Inr None, configuredModel := CString ''gpt-5''\<rparr>)
          example_client ''Explain this'' 1024 None None)
     \<noteq> Inl (ZodError ''Invalid enum value'')"
  by (simp add: example_env_def supported_model_def supported_models_def streamText_def
      getOpenAIApiConfiguration_def)

end
